theory Spec2Isabelle
  imports Main "HOL-Library.Sublist"
begin

section \<open>Values of the program\<close>

text \<open>
  The program is a React front end: \<open>fetchRepositories\<close> asks an HTTP API for a user's
  repositories, \<open>RepoList\<close> turns what it gets into list items, and \<open>App\<close> wires a text
  input and a submit button to them. The platform (the network, the DOM) is modelled as
  far as the code touches it.

  Parsed JSON. An object is the list of its properties in enumeration order.
\<close>

datatype json =
    JNull
  | JBool bool
  | JNum int
  | JStr string
  | JArr "json list"
  | JObj "(string \<times> json) list"

text \<open>An error object: its \<open>name\<close> and its \<open>message\<close>.\<close>

datatype js_error = JsError string string

text \<open>The three states of a promise; a settled one carries its value or its reason.\<close>

datatype 'a promise = Pending | Fulfilled 'a | Rejected 'a

datatype jsval =
    VUndefined
  | VJson json
  | VError js_error
  | VBuiltin string
  | VPromise "jsval promise"

text \<open>A number appended to a string is written in decimal.\<close>

fun show_nat :: "nat \<Rightarrow> string" where
  "show_nat n =
     (if n < 10 then [''0123456789'' ! n]
      else show_nat (n div 10) @ [''0123456789'' ! (n mod 10)])"

section \<open>The network\<close>

text \<open>
  \<open>fetch(url)\<close> with no second argument issues a GET that carries no header of the
  caller's.
\<close>

record request =
  url :: string
  http_method :: string
  headers :: "(string \<times> string) list"

definition fetch_request :: "string \<Rightarrow> request" where
  "fetch_request input = \<lparr>url = input, http_method = ''GET'', headers = []\<rparr>"

text \<open>
  What \<open>response.json()\<close> settles to: it may never settle, reject (a body that is not
  JSON gives a \<open>SyntaxError\<close>), or fulfil with the parsed value.
\<close>

datatype json_outcome = JsonPending | JsonRejects js_error | JsonParsed json

record response =
  status :: nat
  body :: json_outcome

text \<open>\<open>response.ok\<close> is true for the statuses 200 to 299.\<close>

definition ok :: "response \<Rightarrow> bool" where
  "ok r \<longleftrightarrow> 200 \<le> status r \<and> status r \<le> 299"

text \<open>
  What the promise of \<open>fetch\<close> settles to: it may never settle, reject (the network
  call itself fails), or fulfil with a response of any status.
\<close>

datatype fetch_outcome = FetchPending | FetchRejects js_error | FetchResponds response

type_synonym network = "request \<Rightarrow> fetch_outcome"

section \<open>fetchRepositories\<close>

text \<open>
  How a block of statements ends: it returns a value, throws one, or stays suspended at
  an \<open>await\<close> whose promise never settles.
\<close>

datatype completion = Returns jsval | Throws jsval | Suspended

text \<open>The template literal of line 23.\<close>

definition fetch_url :: "string \<Rightarrow> string" where
  "fetch_url username = ''api.github.com/users/'' @ username @ ''/repos''"

text \<open>The \<open>try\<close> block of \<open>fetchRepositories\<close>.\<close>

definition fetchRepositories_try :: "string \<Rightarrow> network \<Rightarrow> completion" where
  "fetchRepositories_try username net =
     (case net (fetch_request (fetch_url username)) of
        FetchPending \<Rightarrow> Suspended
      | FetchRejects e \<Rightarrow> Throws (VError e)
      | FetchResponds response \<Rightarrow>
          if \<not> ok response
          then Throws (VError (JsError ''Error''
                 (''HTTP error! Status code: '' @ show_nat (status response))))
          else (case body response of
                  JsonPending \<Rightarrow> Suspended
                | JsonRejects e \<Rightarrow> Throws (VError e)
                | JsonParsed data \<Rightarrow> Returns (VJson data)))"

text \<open>
  The \<open>catch\<close> clause returns what was thrown. The result is the list of requests the
  call sent and what the promise it returns settles to.
\<close>

definition fetchRepositories :: "string \<Rightarrow> network \<Rightarrow> request list \<times> jsval promise" where
  "fetchRepositories username net =
     ([fetch_request (fetch_url username)],
      case fetchRepositories_try username net of
        Returns data \<Rightarrow> Fulfilled data
      | Throws err \<Rightarrow> Fulfilled err
      | Suspended \<Rightarrow> Pending)"

section \<open>Repo and RepoList\<close>

text \<open>
  What \<open>Repo\<close> renders: an \<open>li\<close> with class \<open>styles\<close> that holds an \<open>a\<close> whose \<open>href\<close> is
  \<open>link\<close> and whose text is \<open>name\<close>.
\<close>

record list_item =
  li_className :: string
  a_href :: jsval
  a_text :: jsval

definition Repo :: "jsval \<Rightarrow> string \<Rightarrow> jsval \<Rightarrow> list_item" where
  "Repo name styles link = \<lparr>li_className = styles, a_href = link, a_text = name\<rparr>"

text \<open>
  The keys a \<open>for ... in\<close> loop visits: the enumerable string-keyed properties of the
  value. An array (and a string) has its indices, an object its properties. A promise has
  none, in any state, and neither have error objects (\<open>message\<close> is not enumerable),
  functions, numbers, booleans, \<open>null\<close> and \<open>undefined\<close>.
\<close>

fun forin_keys :: "jsval \<Rightarrow> string list" where
  "forin_keys (VPromise p) = []"
| "forin_keys (VJson (JArr xs)) = map show_nat [0..<length xs]"
| "forin_keys (VJson (JStr s)) = map show_nat [0..<length s]"
| "forin_keys (VJson (JObj kvs)) = map fst kvs"
| "forin_keys v = []"

text \<open>
  Each round of the loop first assigns the key to \<open>repo\<close>. Nothing declares \<open>repo\<close>, and
  the file is a module, so its code is strict: the assignment throws a \<open>ReferenceError\<close>.
\<close>

definition assign_repo :: "string \<Rightarrow> js_error + string" where
  "assign_repo key = Inl (JsError ''ReferenceError'' ''repo is not defined'')"

text \<open>
  The two properties the body reads of \<open>repo\<close>, a key and so a string: a string has no
  property \<open>name\<close>, and \<open>link\<close> is the method that every string inherits.
\<close>

definition key_prop :: "string \<Rightarrow> string \<Rightarrow> jsval" where
  "key_prop repo p = (if p = ''link'' then VBuiltin ''String.prototype.link'' else VUndefined)"

text \<open>
  The loop of lines 59 to 61 over the keys still to visit, with \<open>listItems\<close> so far:
  it ends with the list, or with the error thrown.
\<close>

fun RepoList_loop :: "string list \<Rightarrow> list_item list \<Rightarrow> js_error + list_item list" where
  "RepoList_loop [] listItems = Inr listItems"
| "RepoList_loop (key # keys) listItems =
     (case assign_repo key of
        Inl err \<Rightarrow> Inl err
      | Inr repo \<Rightarrow>
          RepoList_loop keys
            (listItems @ [Repo (key_prop repo ''name'') [] (key_prop repo ''link'')]))"

text \<open>
  Lines 50 to 61 of \<open>RepoList\<close>: the children of the \<open>ul\<close>, from \<open>repositories\<close>, or the
  error thrown (\<open>styles\<close> is the empty string).
\<close>

definition RepoList_items :: "jsval \<Rightarrow> js_error + list_item list" where
  "RepoList_items repositories = RepoList_loop (forin_keys repositories) []"

text \<open>
  \<open>RepoList\<close> calls \<open>fetchRepositories\<close> with the current user and loops over the promise
  object the call returns, without awaiting it. The result is the list of requests sent
  and the children of the \<open>ul\<close> (or the error thrown).
\<close>

definition RepoList :: "string \<Rightarrow> network \<Rightarrow> request list \<times> (js_error + list_item list)" where
  "RepoList user net =
     (let (reqs, p) = fetchRepositories user net;
          repositories = VPromise p
      in (reqs, RepoList_items repositories))"

section \<open>App: state and event handlers\<close>

datatype element = UsernameInput | SubmitInput

text \<open>
  The border declarations of an element's inline style, one for each side. Assigning
  \<open>style.border\<close> sets the four sides; assigning \<open>style.borderLeft\<close> sets the left one.
\<close>

record border_style =
  borderTop :: string
  borderRight :: string
  borderBottom :: string
  borderLeft :: string

text \<open>
  The state the handlers of \<open>App\<close> read and write. \<open>user\<close> is the constant of line 7,
  bound once, at the top of the module, to the first component of \<open>useState("")\<close>;
  \<open>user_hook\<close> is the value that the hook holds, which \<open>setUser\<close> replaces. Then the
  \<open>current\<close> field of the two refs, the inline border of each element, the element that
  has the focus, and the requests sent so far.
\<close>

record app_state =
  user :: string
  user_hook :: string
  submitButton :: "element option"
  userInput :: "element option"
  border :: "element \<Rightarrow> border_style"
  activeElement :: "element option"
  requests :: "request list"

definition set_border :: "element \<Rightarrow> string \<Rightarrow> app_state \<Rightarrow> app_state" where
  "set_border el v st =
     st\<lparr>border := (border st)
          (el := \<lparr>borderTop = v, borderRight = v, borderBottom = v, borderLeft = v\<rparr>)\<rparr>"

definition set_borderLeft :: "element \<Rightarrow> string \<Rightarrow> app_state \<Rightarrow> app_state" where
  "set_borderLeft el v st =
     st\<lparr>border := (border st) (el := (border st el)\<lparr>borderLeft := v\<rparr>)\<rparr>"

text \<open>\<open>el.focus()\<close> gives the focus to \<open>el\<close>; \<open>el.blur()\<close> takes it away if \<open>el\<close> has it.\<close>

definition focus :: "element \<Rightarrow> app_state \<Rightarrow> app_state" where
  "focus el st = st\<lparr>activeElement := Some el\<rparr>"

definition blur :: "element \<Rightarrow> app_state \<Rightarrow> app_state" where
  "blur el st = (if activeElement st = Some el then st\<lparr>activeElement := None\<rparr> else st)"

definition highlightElement ::
  "element option \<Rightarrow> element option \<Rightarrow> app_state \<Rightarrow> app_state" where
  "highlightElement ref self st =
     (let st1 = (case ref of
                   None \<Rightarrow> st
                 | Some refElement \<Rightarrow>
                     set_borderLeft refElement ''2px solid #151b23''
                       (set_border refElement ''2px solid white'' st))
      in case self of None \<Rightarrow> st1 | Some el \<Rightarrow> focus el st1)"

definition blurElement ::
  "element option \<Rightarrow> element option \<Rightarrow> app_state \<Rightarrow> app_state" where
  "blurElement ref self st =
     (let st1 = (case ref of None \<Rightarrow> st | Some el \<Rightarrow> set_border el ''none'' st)
      in case self of None \<Rightarrow> st1 | Some el \<Rightarrow> blur el st1)"

text \<open>The handlers of the username input and of the form.\<close>

definition App_onFocus :: "app_state \<Rightarrow> app_state" where
  "App_onFocus st = highlightElement (submitButton st) (userInput st) st"

definition App_onBlur :: "app_state \<Rightarrow> app_state" where
  "App_onBlur st = blurElement (submitButton st) (userInput st) st"

text \<open>
  \<open>onChange\<close> calls \<open>setUser\<close> with the text typed: the hook's value changes, and the
  constant \<open>user\<close>, which the other handlers and \<open>RepoList\<close> read, stays as it was bound.
\<close>

definition App_onChange :: "string \<Rightarrow> app_state \<Rightarrow> app_state" where
  "App_onChange v st = st\<lparr>user_hook := v\<rparr>"

text \<open>\<open>onSubmit\<close> calls \<open>fetchRepositories(user)\<close> and drops the promise it returns.\<close>

definition App_onSubmit :: "network \<Rightarrow> app_state \<Rightarrow> app_state" where
  "App_onSubmit net st =
     (let (reqs, p) = fetchRepositories (user st) net
      in st\<lparr>requests := requests st @ reqs\<rparr>)"

text \<open>
  Rendering \<open>App\<close> renders \<open>RepoList\<close>: the state after it and the list shown (or the
  error thrown).
\<close>

definition App_render ::
  "network \<Rightarrow> app_state \<Rightarrow> app_state \<times> (js_error + list_item list)" where
  "App_render net st =
     (let (reqs, listItems) = RepoList (user st) net
      in (st\<lparr>requests := requests st @ reqs\<rparr>, listItems))"

section \<open>Example inputs\<close>

text \<open>
  The page once mounted: \<open>user\<close> is the empty string of line 7, both refs are attached,
  no border is set, the username input has the focus and nothing has been sent.
\<close>

definition mounted :: app_state where
  "mounted =
     \<lparr>user = [], user_hook = [], submitButton = Some SubmitInput,
      userInput = Some UsernameInput,
      border = (\<lambda>el. \<lparr>borderTop = [], borderRight = [], borderBottom = [],
                      borderLeft = []\<rparr>),
      activeElement = Some UsernameInput, requests = []\<rparr>"

text \<open>A network that gives every request the same response, and one that never answers.\<close>

definition answers :: "nat \<Rightarrow> json_outcome \<Rightarrow> network" where
  "answers code b = (\<lambda>req. FetchResponds \<lparr>status = code, body = b\<rparr>)"

definition hangs :: network where
  "hangs = (\<lambda>req. FetchPending)"

definition hello_world :: json where
  "hello_world =
     JObj [(''name'', JStr ''Hello-World''),
           (''url'', JStr ''https://github.com/octocat/Hello-World'')]"

definition nameless :: json where
  "nameless = JObj [(''url'', JStr ''https://github.com/octocat/Spoon-Knife'')]"

section \<open>Helper lemmas\<close>

lemma show_nat_404: "show_nat 404 = ''404''"
  by code_simp

lemma RepoList_items_promise: "RepoList_items (VPromise p) = Inr []"
  by (simp add: RepoList_items_def)

lemma RepoList_snd: "snd (RepoList u net) = RepoList_items (VPromise (snd (fetchRepositories u net)))"
  by (simp add: RepoList_def split: prod.splits)

section \<open>The fetch-and-render data flow\<close>

text \<open>
  C1, for any username (the page's own \<open>user\<close> is the empty string) with a 200 response
  whose body is the array of one record \<open>hello_world\<close>: the promise of
  \<open>fetchRepositories\<close> is fulfilled with that array, and \<open>RepoList\<close> renders no entry at
  all, where one entry labelled \<open>Hello-World\<close> is due. \<open>RepoList\<close> loops over the promise
  object, which has no enumerable property.
\<close>

theorem RepoList_drops_records:
  "snd (fetchRepositories u (answers 200 (JsonParsed (JArr [hello_world])))) =
     Fulfilled (VJson (JArr [hello_world])) \<and>
   snd (RepoList u (answers 200 (JsonParsed (JArr [hello_world])))) = Inr []"
  by (simp add: fetchRepositories_def fetchRepositories_try_def answers_def ok_def
      RepoList_def RepoList_items_def)

text \<open>
  C2, in any state of the page, and so in the mounted one, with the same response:
  submitting calls \<open>fetchRepositories\<close> with the current \<open>user\<close> (the request is sent,
  its promise is fulfilled with the array), changes nothing else in the state, and the
  list rendered afterwards is empty: the result of the submission's fetch is not what is
  shown.
\<close>

theorem onSubmit_result_not_rendered:
  "snd (fetchRepositories (user st) (answers 200 (JsonParsed (JArr [hello_world])))) =
     Fulfilled (VJson (JArr [hello_world])) \<and>
   App_onSubmit (answers 200 (JsonParsed (JArr [hello_world]))) st =
     st\<lparr>requests := requests st @ [fetch_request (fetch_url (user st))]\<rparr> \<and>
   snd (App_render (answers 200 (JsonParsed (JArr [hello_world])))
         (App_onSubmit (answers 200 (JsonParsed (JArr [hello_world]))) st)) = Inr [] \<and>
   App_onSubmit (answers 200 (JsonParsed (JArr [hello_world]))) mounted =
     mounted\<lparr>requests := [fetch_request ''api.github.com/users//repos'']\<rparr> \<and>
   snd (App_render (answers 200 (JsonParsed (JArr [hello_world])))
         (App_onSubmit (answers 200 (JsonParsed (JArr [hello_world]))) mounted)) = Inr []"
  by (simp add: fetchRepositories_def fetchRepositories_try_def answers_def ok_def
      RepoList_def RepoList_items_def App_onSubmit_def App_render_def mounted_def
      fetch_url_def)

text \<open>
  C3, as stated, at a network call that never answers (no timeout is set): the request
  is sent and the promise of \<open>fetchRepositories\<close> stays pending, so this failure is not
  turned into a returned value.
\<close>

theorem fetchRepositories_hang_stays_pending:
  "fetchRepositories [] hangs = ([fetch_request ''api.github.com/users//repos''], Pending)"
  by (simp add: fetchRepositories_def fetchRepositories_try_def hangs_def fetch_url_def)

text \<open>
  C3, amended. \<open>fetchRepositories\<close> sends its one request and, whatever the network call
  does, the promise it returns is never rejected: nothing is thrown past the function.
  Every failure that settles is returned as the value the promise is fulfilled with, and
  that value is the failure itself: the error the network call rejected with, the \<open>Error\<close>
  whose message carries the status when the status is not a success status, the error
  the parsing of the body rejected with. When the network call or the reading of the
  body never settles, the promise stays pending.
\<close>

theorem fetchRepositories_returns_failure:
  "fst (fetchRepositories username net) = [fetch_request (fetch_url username)] \<and>
   (\<forall>x. snd (fetchRepositories username net) \<noteq> Rejected x) \<and>
   (net (fetch_request (fetch_url username)) = FetchRejects e \<longrightarrow>
      snd (fetchRepositories username net) = Fulfilled (VError e)) \<and>
   (net (fetch_request (fetch_url username)) = FetchResponds r \<and> \<not> ok r \<longrightarrow>
      snd (fetchRepositories username net) =
        Fulfilled (VError (JsError ''Error''
          (''HTTP error! Status code: '' @ show_nat (status r))))) \<and>
   (net (fetch_request (fetch_url username)) = FetchResponds r \<and> ok r \<and>
    body r = JsonRejects e \<longrightarrow>
      snd (fetchRepositories username net) = Fulfilled (VError e)) \<and>
   (net (fetch_request (fetch_url username)) = FetchPending \<or>
    net (fetch_request (fetch_url username)) = FetchResponds r \<and> ok r \<and>
    body r = JsonPending \<longrightarrow>
      snd (fetchRepositories username net) = Pending)"
proof (intro conjI allI)
  show "fst (fetchRepositories username net) = [fetch_request (fetch_url username)]"
    by (simp add: fetchRepositories_def)
next
  fix x
  show "snd (fetchRepositories username net) \<noteq> Rejected x"
    by (simp add: fetchRepositories_def split: completion.splits)
qed (auto simp: fetchRepositories_def fetchRepositories_try_def)

text \<open>
  Each kind of failure at \<open>octocat\<close>: the network call rejects, the status is 500, the
  body of a 200 response is not JSON, the network call never answers.
\<close>

theorem fetchRepositories_returns_failure_witness:
  "snd (fetchRepositories ''octocat''
         (\<lambda>req. FetchRejects (JsError ''TypeError'' ''Failed to fetch''))) =
     Fulfilled (VError (JsError ''TypeError'' ''Failed to fetch'')) \<and>
   \<not> ok \<lparr>status = 500, body = JsonPending\<rparr> \<and>
   snd (fetchRepositories ''octocat'' (answers 500 JsonPending)) =
     Fulfilled (VError (JsError ''Error'' (''HTTP error! Status code: '' @ show_nat 500))) \<and>
   ok \<lparr>status = 200, body = JsonRejects (JsError ''SyntaxError'' ''Unexpected token'')\<rparr> \<and>
   snd (fetchRepositories ''octocat''
         (answers 200 (JsonRejects (JsError ''SyntaxError'' ''Unexpected token'')))) =
     Fulfilled (VError (JsError ''SyntaxError'' ''Unexpected token'')) \<and>
   snd (fetchRepositories ''octocat'' hangs) = Pending \<and>
   fst (fetchRepositories ''octocat'' hangs) = [fetch_request (fetch_url ''octocat'')]"
  using
    fetchRepositories_returns_failure [of "''octocat''"
      "\<lambda>req. FetchRejects (JsError ''TypeError'' ''Failed to fetch'')"
      "JsError ''TypeError'' ''Failed to fetch''"]
    fetchRepositories_returns_failure [of "''octocat''" "answers 500 JsonPending" _
      "\<lparr>status = 500, body = JsonPending\<rparr>"]
    fetchRepositories_returns_failure [of "''octocat''"
      "answers 200 (JsonRejects (JsError ''SyntaxError'' ''Unexpected token''))"
      "JsError ''SyntaxError'' ''Unexpected token''"
      "\<lparr>status = 200, body = JsonRejects (JsError ''SyntaxError'' ''Unexpected token'')\<rparr>"]
    fetchRepositories_returns_failure [of "''octocat''" hangs]
  by (simp add: answers_def hangs_def ok_def)

text \<open>
  C4. When the response has status 404, the promise of \<open>fetchRepositories\<close> is fulfilled
  with an \<open>Error\<close> whose message contains \<open>404\<close>, and rendering that result (\<open>RepoList\<close>,
  which loops over that promise) yields no entry.
\<close>

theorem status_404_is_failure:
  assumes "net (fetch_request (fetch_url username)) = FetchResponds r"
    and "status r = 404"
  shows "(\<exists>m. snd (fetchRepositories username net) = Fulfilled (VError (JsError ''Error'' m)) \<and>
            sublist ''404'' m) \<and>
         RepoList_items (VPromise (snd (fetchRepositories username net))) = Inr [] \<and>
         snd (RepoList username net) = Inr []"
proof -
  have "\<not> ok r"
    using assms(2) by (simp add: ok_def)
  then have "snd (fetchRepositories username net) =
      Fulfilled (VError (JsError ''Error'' (''HTTP error! Status code: '' @ ''404'')))"
    using assms by (simp add: fetchRepositories_def fetchRepositories_try_def show_nat_404)
  moreover have "sublist ''404'' (''HTTP error! Status code: '' @ ''404'')"
    by (rule sublist_append_leftI)
  ultimately show ?thesis
    by (simp add: RepoList_items_promise RepoList_snd)
qed

theorem status_404_is_failure_witness:
  "answers 404 (JsonParsed (JObj [(''message'', JStr ''Not Found'')]))
     (fetch_request (fetch_url ''octocat'')) =
     FetchResponds
       \<lparr>status = 404, body = JsonParsed (JObj [(''message'', JStr ''Not Found'')])\<rparr> \<and>
   status \<lparr>status = 404, body = JsonParsed (JObj [(''message'', JStr ''Not Found'')])\<rparr> =
     404 \<and>
   (\<exists>m. snd (fetchRepositories ''octocat''
              (answers 404 (JsonParsed (JObj [(''message'', JStr ''Not Found'')])))) =
          Fulfilled (VError (JsError ''Error'' m)) \<and> sublist ''404'' m) \<and>
   snd (RepoList ''octocat''
         (answers 404 (JsonParsed (JObj [(''message'', JStr ''Not Found'')])))) = Inr []"
  using status_404_is_failure [of
      "answers 404 (JsonParsed (JObj [(''message'', JStr ''Not Found'')]))" "''octocat''"
      "\<lparr>status = 404, body = JsonParsed (JObj [(''message'', JStr ''Not Found'')])\<rparr>"]
  by (simp add: answers_def)

text \<open>
  C5, at the input \<open>octocat\<close>: \<open>fetchRepositories\<close> sends one request, a GET without
  headers, and its URL is \<open>api.github.com/users/octocat/repos\<close>: it does not begin with
  \<open>https://\<close>, so it has no scheme and names no host (the browser resolves it against
  the address of the page).
\<close>

theorem fetch_url_has_no_scheme:
  "fst (fetchRepositories ''octocat'' net) =
     [\<lparr>url = ''api.github.com/users/octocat/repos'', http_method = ''GET'', headers = []\<rparr>] \<and>
   \<not> prefix ''https://'' (fetch_url ''octocat'')"
  by (simp add: fetchRepositories_def fetch_request_def fetch_url_def)

text \<open>
  C6, for any username (the page's own \<open>user\<close> is the empty string) with a 200 response
  whose body holds a record without a name followed by a complete one: rendering does
  not fail, and it shows no entry, not even the complete record's.
\<close>

theorem RepoList_drops_complete_record:
  "snd (fetchRepositories u (answers 200 (JsonParsed (JArr [nameless, hello_world])))) =
     Fulfilled (VJson (JArr [nameless, hello_world])) \<and>
   snd (RepoList u (answers 200 (JsonParsed (JArr [nameless, hello_world])))) = Inr []"
  by (simp add: fetchRepositories_def fetchRepositories_try_def answers_def ok_def
      RepoList_def RepoList_items_def)

section \<open>Focus and blur\<close>

text \<open>
  C7. When the username input gains the focus, its handler calls \<open>highlightElement\<close> with
  the submit button as the other element. With both refs attached, the submit button
  then has the white border, its left side in the background colour, and the focus is on
  the username input.
\<close>

theorem onFocus_highlights_submit:
  assumes "submitButton st = Some b" and "userInput st = Some u"
  shows "border (App_onFocus st) b =
           \<lparr>borderTop = ''2px solid white'', borderRight = ''2px solid white'',
            borderBottom = ''2px solid white'', borderLeft = ''2px solid #151b23''\<rparr> \<and>
         activeElement (App_onFocus st) = Some u"
  using assms
  by (simp add: App_onFocus_def highlightElement_def set_border_def set_borderLeft_def
      focus_def)

theorem onFocus_highlights_submit_witness:
  "submitButton mounted = Some SubmitInput \<and> userInput mounted = Some UsernameInput \<and>
   activeElement mounted = Some UsernameInput \<and>
   border (App_onFocus mounted) SubmitInput =
     \<lparr>borderTop = ''2px solid white'', borderRight = ''2px solid white'',
      borderBottom = ''2px solid white'', borderLeft = ''2px solid #151b23''\<rparr> \<and>
   activeElement (App_onFocus mounted) = Some UsernameInput"
  using onFocus_highlights_submit [of mounted SubmitInput UsernameInput]
  by (simp add: mounted_def)

text \<open>
  C8. \<open>highlightElement\<close> and \<open>blurElement\<close> leave the user (the constant and the value
  the hook holds) and the requests sent as they are: the state after them is the state before with only the borders and the
  focus replaced. So what \<open>fetchRepositories\<close> gives for the current user, and what
  \<open>RepoList\<close> renders, are the same before and after.
\<close>

theorem highlight_blur_frame:
  "user (highlightElement r s st) = user st \<and>
   user_hook (highlightElement r s st) = user_hook st \<and>
   requests (highlightElement r s st) = requests st \<and>
   user (blurElement r s st) = user st \<and>
   user_hook (blurElement r s st) = user_hook st \<and>
   requests (blurElement r s st) = requests st \<and>
   highlightElement r s st =
     st\<lparr>border := border (highlightElement r s st),
        activeElement := activeElement (highlightElement r s st)\<rparr> \<and>
   blurElement r s st =
     st\<lparr>border := border (blurElement r s st),
        activeElement := activeElement (blurElement r s st)\<rparr> \<and>
   fetchRepositories (user (highlightElement r s st)) net = fetchRepositories (user st) net \<and>
   fetchRepositories (user (blurElement r s st)) net = fetchRepositories (user st) net \<and>
   RepoList (user (highlightElement r s st)) net = RepoList (user st) net \<and>
   RepoList (user (blurElement r s st)) net = RepoList (user st) net"
  by (simp add: highlightElement_def blurElement_def set_border_def set_borderLeft_def
      focus_def blur_def split: option.splits)

section \<open>What the code does with the result\<close>

text \<open>
  C9. Whatever \<open>fetchRepositories\<close> yields (a promise still pending, fulfilled with the
  data, or fulfilled with an error object), the list that \<open>RepoList\<close> renders is empty:
  the loop visits the enumerable properties of the promise object, and there are none.
\<close>

theorem RepoList_always_empty:
  "forin_keys (VPromise p) = [] \<and>
   RepoList_items (VPromise Pending) = Inr [] \<and>
   RepoList_items (VPromise (Fulfilled (VJson d))) = Inr [] \<and>
   RepoList_items (VPromise (Fulfilled (VError e))) = Inr [] \<and>
   RepoList_items (VPromise (snd (fetchRepositories u net))) = Inr [] \<and>
   snd (RepoList u net) = Inr []"
  by (simp add: RepoList_snd RepoList_items_promise)

text \<open>
  C10. \<open>fetchRepositories\<close> hands back success and failure in the same way, as the value
  its promise is fulfilled with: on success the parsed data itself, on each kind of
  failure (the network call rejects, the status is not a success status, the body does
  not parse) the error object itself. Neither is wrapped in a tag.
\<close>

theorem fetchRepositories_untagged:
  "(net (fetch_request (fetch_url u)) = FetchResponds r \<and> ok r \<and> body r = JsonParsed d \<longrightarrow>
      snd (fetchRepositories u net) = Fulfilled (VJson d)) \<and>
   (net (fetch_request (fetch_url u)) = FetchRejects e \<longrightarrow>
      snd (fetchRepositories u net) = Fulfilled (VError e)) \<and>
   (net (fetch_request (fetch_url u)) = FetchResponds r \<and> \<not> ok r \<longrightarrow>
      snd (fetchRepositories u net) =
        Fulfilled (VError (JsError ''Error''
          (''HTTP error! Status code: '' @ show_nat (status r))))) \<and>
   (net (fetch_request (fetch_url u)) = FetchResponds r \<and> ok r \<and> body r = JsonRejects e \<longrightarrow>
      snd (fetchRepositories u net) = Fulfilled (VError e))"
  by (simp add: fetchRepositories_def fetchRepositories_try_def)

text \<open>
  A success, and each kind of failure, at \<open>octocat\<close>: every result is a fulfilled promise.
\<close>

theorem fetchRepositories_untagged_witness:
  "ok \<lparr>status = 200, body = JsonParsed (JArr [hello_world])\<rparr> \<and>
   snd (fetchRepositories ''octocat'' (answers 200 (JsonParsed (JArr [hello_world])))) =
     Fulfilled (VJson (JArr [hello_world])) \<and>
   snd (fetchRepositories ''octocat''
         (\<lambda>req. FetchRejects (JsError ''TypeError'' ''Failed to fetch''))) =
     Fulfilled (VError (JsError ''TypeError'' ''Failed to fetch'')) \<and>
   \<not> ok \<lparr>status = 404, body = JsonPending\<rparr> \<and>
   snd (fetchRepositories ''octocat'' (answers 404 JsonPending)) =
     Fulfilled (VError (JsError ''Error'' ''HTTP error! Status code: 404'')) \<and>
   snd (fetchRepositories ''octocat''
         (answers 200 (JsonRejects (JsError ''SyntaxError'' ''Unexpected token'')))) =
     Fulfilled (VError (JsError ''SyntaxError'' ''Unexpected token''))"
  using
    fetchRepositories_untagged [of "answers 200 (JsonParsed (JArr [hello_world]))"
      "''octocat''" "\<lparr>status = 200, body = JsonParsed (JArr [hello_world])\<rparr>"
      "JArr [hello_world]"]
    fetchRepositories_untagged [of
      "\<lambda>req. FetchRejects (JsError ''TypeError'' ''Failed to fetch'')" "''octocat''" _ _
      "JsError ''TypeError'' ''Failed to fetch''"]
    fetchRepositories_untagged [of "answers 404 JsonPending" "''octocat''"
      "\<lparr>status = 404, body = JsonPending\<rparr>"]
    fetchRepositories_untagged [of
      "answers 200 (JsonRejects (JsError ''SyntaxError'' ''Unexpected token''))" "''octocat''"
      "\<lparr>status = 200, body = JsonRejects (JsError ''SyntaxError'' ''Unexpected token'')\<rparr>"
      _ "JsError ''SyntaxError'' ''Unexpected token''"]
  by (simp add: answers_def ok_def show_nat_404)

end
